theory Spec2Isabelle
  imports Complex_Main
begin

section \<open>Python strings\<close>

text \<open>
  A Python \<open>str\<close> is modelled as a \<open>string\<close> (a list of 8-bit characters); the model
  is about ASCII text.  Python's \<open>float\<close> is modelled by \<open>real\<close>: scores are finite
  numbers and rounding is not modelled.
\<close>

definition is_space :: "char \<Rightarrow> bool" where
  \<comment> \<open>the ASCII characters for which \<open>str.isspace\<close> holds\<close>
  "is_space c \<longleftrightarrow> c \<in> set [CHR 0x09, CHR 0x0A, CHR 0x0B, CHR 0x0C, CHR 0x0D,
                            CHR 0x1C, CHR 0x1D, CHR 0x1E, CHR 0x1F, CHR 0x20]"

fun py_split_aux :: "string \<Rightarrow> string \<Rightarrow> string list" where
  "py_split_aux cur [] = (if cur = [] then [] else [cur])"
| "py_split_aux cur (c # cs) =
     (if is_space c
      then (if cur = [] then py_split_aux [] cs else cur # py_split_aux [] cs)
      else py_split_aux (cur @ [c]) cs)"

definition py_split :: "string \<Rightarrow> string list" where
  \<comment> \<open>\<open>s.split()\<close>: the maximal runs of non-whitespace characters\<close>
  "py_split s = py_split_aux [] s"

fun py_join :: "string \<Rightarrow> string list \<Rightarrow> string" where
  "py_join sep [] = []"
| "py_join sep [x] = x"
| "py_join sep (x # y # ys) = x @ sep @ py_join sep (y # ys)"

definition py_strip :: "string \<Rightarrow> string" where
  "py_strip s = rev (dropWhile is_space (rev (dropWhile is_space s)))"

definition lower_char :: "char \<Rightarrow> char" where
  "lower_char c =
     (case map_of (zip ''ABCDEFGHIJKLMNOPQRSTUVWXYZ'' ''abcdefghijklmnopqrstuvwxyz'') c of
        None \<Rightarrow> c | Some d \<Rightarrow> d)"

definition py_lower :: "string \<Rightarrow> string" where
  "py_lower s = map lower_char s"

fun py_in :: "string \<Rightarrow> string \<Rightarrow> bool" where
  \<comment> \<open>\<open>sub in s\<close> on strings\<close>
  "py_in sub [] = (sub = [])"
| "py_in sub (c # cs) = (take (length sub) (c # cs) = sub \<or> py_in sub cs)"

definition py_slice :: "'a list \<Rightarrow> int \<Rightarrow> int \<Rightarrow> 'a list" where
  \<comment> \<open>\<open>s[a:b]\<close>: a negative bound counts from the end, both are clipped to the length\<close>
  "py_slice s a b =
     (let n = int (length s);
          a' = (if a < 0 then max (a + n) 0 else min a n);
          b' = (if b < 0 then max (b + n) 0 else min b n)
      in take (nat (b' - a')) (drop (nat a') s))"

fun rfind_from :: "string \<Rightarrow> string \<Rightarrow> nat \<Rightarrow> int" where
  \<comment> \<open>the highest index \<open>i \<le> k\<close> at which \<open>sub\<close> occurs in \<open>s\<close>, or \<open>-1\<close>\<close>
  "rfind_from s sub 0 = (if take (length sub) s = sub then 0 else -1)"
| "rfind_from s sub (Suc k) =
     (if take (length sub) (drop (Suc k) s) = sub then int (Suc k) else rfind_from s sub k)"

definition rfind :: "string \<Rightarrow> string \<Rightarrow> int" where
  \<comment> \<open>\<open>s.rfind(sub)\<close>\<close>
  "rfind s sub =
     (if length s < length sub then -1 else rfind_from s sub (length s - length sub))"

section \<open>Regular expressions\<close>

text \<open>
  The patterns of the validator use character classes, sequence, alternation and the
  greedy operators \<open>?\<close>, \<open>*\<close>, \<open>+\<close> and \<open>{m,n}\<close>.  \<open>rmatch r s\<close> lists the remainders
  of \<open>s\<close> after every way \<open>r\<close> matches a prefix of \<open>s\<close>, in the order in which a
  backtracking matcher tries them, so that the head of the list is the match that
  \<open>re\<close> reports.
\<close>

datatype regex =
    Cls string
  | Seq regex regex
  | Alt regex regex
  | Opt regex
  | Star regex

fun rmatch :: "regex \<Rightarrow> string \<Rightarrow> string list" where
  "rmatch (Cls cs) s = (case s of [] \<Rightarrow> [] | c # r \<Rightarrow> if c \<in> set cs then [r] else [])"
| "rmatch (Seq a b) s = concat (map (rmatch b) (rmatch a s))"
| "rmatch (Alt a b) s = rmatch a s @ rmatch b s"
| "rmatch (Opt a) s = rmatch a s @ [s]"
| "rmatch (Star a) s =
     concat (map (\<lambda>r. if length r < length s then rmatch (Star a) r else []) (rmatch a s)) @ [s]"

fun seqs :: "regex list \<Rightarrow> regex" where
  "seqs [] = Opt (Cls [])"
| "seqs [r] = r"
| "seqs (r # rs) = Seq r (seqs rs)"

definition rplus :: "regex \<Rightarrow> regex" where
  \<comment> \<open>\<open>r+\<close>\<close>
  "rplus r = Seq r (Star r)"

definition digit :: regex where
  "digit = Cls ''0123456789''"

definition lit :: "char \<Rightarrow> regex" where
  "lit c = Cls [c]"

function re_findall :: "regex \<Rightarrow> string \<Rightarrow> string list" where
  "re_findall r s =
     (case rmatch r s of
        [] \<Rightarrow> (case s of [] \<Rightarrow> [] | _ # cs \<Rightarrow> re_findall r cs)
      | rest # _ \<Rightarrow>
          (let m = take (length s - length rest) s
           in if length rest < length s then m # re_findall r rest
              else (case s of [] \<Rightarrow> [m] | _ # cs \<Rightarrow> m # re_findall r cs)))"
  by pat_completeness auto
termination
  by (relation "measure (\<lambda>(r, s). length s)") auto

fun re_search :: "regex \<Rightarrow> string \<Rightarrow> bool" where
  "re_search r [] = (rmatch r [] \<noteq> [])"
| "re_search r (c # cs) = (rmatch r (c # cs) \<noteq> [] \<or> re_search r cs)"

section \<open>The validator\<close>

datatype ValidationLevel = HIGH | MEDIUM | LOW | FAILED

text \<open>
  A chunk of a document; the three entries of its \<open>metadata\<close> dictionary are the last
  three fields.
\<close>

record DocumentChunk =
  c_text :: string
  source :: string
  page :: int
  chunk_id :: int
  char_start :: int
  char_end :: int
  chunk_length :: int

text \<open>
  A retrieved chunk is a dictionary; the validator reads the keys \<open>text\<close> and
  \<open>combined_score\<close> with \<open>get\<close> and a default, so both may be absent.
\<close>

record retrieved =
  r_chunk :: "DocumentChunk option"
  r_text :: "string option"
  r_source :: string
  r_page :: int
  r_chunk_id :: int
  r_combined_score :: "real option"
  r_bm25_score :: "real option"
  r_dense_score :: "real option"

definition get_text :: "retrieved \<Rightarrow> string" where
  "get_text c = (case r_text c of None \<Rightarrow> [] | Some t \<Rightarrow> t)"

definition get_combined_score :: "retrieved \<Rightarrow> real" where
  "get_combined_score c = (case r_combined_score c of None \<Rightarrow> 0 | Some x \<Rightarrow> x)"

record hallucination_result =
  likely_hallucination :: bool
  indicators :: "string list"
  h_confidence :: real

record numerical_result =
  has_numbers :: bool
  validated :: bool
  answer_numbers :: "string list option"
  matched_count :: "nat option"
  total_count :: "nat option"

record validation_details =
  d_retrieval_score :: real
  d_alignment_score :: real
  d_hallucination_indicators :: hallucination_result
  d_numerical_accuracy :: numerical_result

text \<open>
  The first warning formats the retrieval score with two decimals; the model keeps the
  score itself.
\<close>

datatype warning = LowRetrievalQuality real | Warning string

record ValidationResult =
  level :: ValidationLevel
  confidence_score :: real
  passed_checks :: "string list"
  failed_checks :: "string list"
  warnings :: "warning list"
  details :: validation_details

definition is_safe_to_use :: "ValidationResult \<Rightarrow> bool" where
  "is_safe_to_use r \<longleftrightarrow> level r \<in> set [HIGH, MEDIUM]"

record MultiStageValidator =
  retrieval_threshold :: real
  alignment_threshold :: real
  min_confidence :: real

definition default_validator :: MultiStageValidator where
  "default_validator =
     \<lparr>retrieval_threshold = 0.3, alignment_threshold = 0.5, min_confidence = 0.6\<rparr>"

definition check_retrieval_quality :: "retrieved list \<Rightarrow> real" where
  "check_retrieval_quality retrieved_chunks =
     (if retrieved_chunks = [] then 0
      else let scores = map get_combined_score retrieved_chunks
           in if scores \<noteq> [] then sum_list scores / real (length scores) else 0)"

definition check_source_alignment :: "string \<Rightarrow> retrieved list \<Rightarrow> real" where
  "check_source_alignment answer retrieved_chunks =
     (if retrieved_chunks = [] \<or> answer = [] then 0
      else let answer_tokens = set (py_split (py_lower answer));
               source_text = py_join '' '' (map get_text retrieved_chunks);
               source_tokens = set (py_split (py_lower source_text))
           in if answer_tokens = {} then 0
              else real (card (answer_tokens \<inter> source_tokens)) / real (card answer_tokens))"

definition pat_percent :: regex where
  \<comment> \<open>\<^verbatim>\<open>\d+\.?\d*%\<close>\<close>
  "pat_percent = seqs [rplus digit, Opt (lit CHR ''.''), Star digit, lit CHR ''%'']"

definition pat_currency :: regex where
  \<comment> \<open>\<^verbatim>\<open>\$\d+(?:,\d{3})*(?:\.\d{2})?\<close>\<close>
  "pat_currency =
     seqs [lit CHR ''$'', rplus digit, Star (seqs [lit CHR '','', digit, digit, digit]),
           Opt (seqs [lit CHR ''.'', digit, digit])]"

definition pat_decimal :: regex where
  \<comment> \<open>\<^verbatim>\<open>\d+\.?\d*\<close>\<close>
  "pat_decimal = seqs [rplus digit, Opt (lit CHR ''.''), Star digit]"

definition pat_date :: regex where
  \<comment> \<open>\<^verbatim>\<open>[A-Z][a-z]+ \d{1,2}, \d{4}\<close>\<close>
  "pat_date =
     seqs [Cls ''ABCDEFGHIJKLMNOPQRSTUVWXYZ'', rplus (Cls ''abcdefghijklmnopqrstuvwxyz''),
           lit CHR '' '', digit, Opt digit, lit CHR '','', lit CHR '' '',
           digit, digit, digit, digit]"

definition pat_specifics :: regex where
  \<comment> \<open>\<^verbatim>\<open>\d+\.?\d*%|\$\d+|[A-Z][a-z]+ \d{1,2}, \d{4}\<close>\<close>
  "pat_specifics = Alt pat_percent (Alt (seqs [lit CHR ''$'', rplus digit]) pat_date)"

definition contradiction :: "string \<Rightarrow> bool" where
  \<comment> \<open>the first indicator: a disclaimer in an answer of more than 20 words\<close>
  "contradiction answer \<longleftrightarrow>
     (py_in ''cannot find'' (py_lower answer) \<or> py_in ''not available'' (py_lower answer))
     \<and> length (py_split answer) > 20"

definition unsupported_specificity :: "string \<Rightarrow> retrieved list \<Rightarrow> bool" where
  "unsupported_specificity answer retrieved_chunks \<longleftrightarrow>
     (let has_specifics = re_search pat_specifics answer;
          has_citations = (py_in ''Source'' answer \<or> py_in ''According to'' answer)
      in has_specifics \<and> \<not> has_citations \<and> length retrieved_chunks > 0)"

definition excessive_length :: "string \<Rightarrow> retrieved list \<Rightarrow> bool" where
  "excessive_length answer retrieved_chunks \<longleftrightarrow>
     retrieved_chunks \<noteq> [] \<and>
     (let source_length = sum_list (map (\<lambda>c. length (get_text c)) retrieved_chunks)
      in real (length answer) > real source_length * 0.5)"

definition detect_hallucination :: "string \<Rightarrow> retrieved list \<Rightarrow> hallucination_result" where
  "detect_hallucination answer retrieved_chunks =
     (let indicators0 =
            (if contradiction answer
             then [''Contradictory: Claims no info but provides detail''] else []);
          likely0 = contradiction answer;
          indicators1 = indicators0 @
            (if unsupported_specificity answer retrieved_chunks
             then [''Specific claims without source attribution''] else []);
          indicators2 = indicators1 @
            (if excessive_length answer retrieved_chunks
             then [''Answer length exceeds reasonable extraction ratio''] else []);
          likely = (if length indicators2 \<ge> 2 then True else likely0)
      in \<lparr>likely_hallucination = likely, indicators = indicators2,
          h_confidence = 1.0 - real (length indicators2) * 0.3\<rparr>)"

definition extract_numbers :: "string \<Rightarrow> string list" where
  "extract_numbers txt =
     re_findall pat_percent txt @ re_findall pat_currency txt @ re_findall pat_decimal txt"

definition py_count :: "('a \<Rightarrow> bool) \<Rightarrow> 'a list \<Rightarrow> nat" where
  \<comment> \<open>\<open>sum(1 for x in xs if p(x))\<close>\<close>
  "py_count p xs = length (filter p xs)"

definition check_numerical_accuracy :: "string \<Rightarrow> retrieved list \<Rightarrow> numerical_result" where
  "check_numerical_accuracy answer retrieved_chunks =
     (let answer_nums = extract_numbers answer
      in if answer_nums = []
         then \<lparr>has_numbers = False, validated = True, answer_numbers = None,
               matched_count = None, total_count = None\<rparr>
         else let source_text = py_join '' '' (map get_text retrieved_chunks);
                  source_numbers = extract_numbers source_text
              in \<lparr>has_numbers = True,
                  validated = list_all (\<lambda>num. num \<in> set source_numbers) answer_nums,
                  answer_numbers = Some answer_nums,
                  matched_count = Some (py_count (\<lambda>num. num \<in> set source_numbers) answer_nums),
                  total_count = Some (length answer_nums)\<rparr>)"

definition calculate_confidence :: "real \<Rightarrow> real \<Rightarrow> nat \<Rightarrow> nat \<Rightarrow> real" where
  "calculate_confidence retrieval_score alignment_score passed_count failed_count =
     (let confidence = 0.3 * retrieval_score + 0.3 * alignment_score
            + 0.4 * (real passed_count / real (max (passed_count + failed_count) 1))
      in min 1.0 (max 0.0 confidence))"

definition determine_validation_level ::
  "MultiStageValidator \<Rightarrow> real \<Rightarrow> string list \<Rightarrow> ValidationLevel" where
  "determine_validation_level v conf failed =
     (let critical_failures = {''retrieval_quality'', ''numerical_accuracy''};
          has_critical_failure = (set failed \<inter> critical_failures \<noteq> {})
      in if has_critical_failure then FAILED
         else if conf \<ge> min_confidence v then HIGH
         else if conf \<ge> 0.4 then MEDIUM
         else LOW)"

text \<open>
  \<open>validate\<close> threads the four lists through the four stages; each stage is a
  function from the lists so far to the lists after it.
\<close>

record check_lists =
  cl_passed :: "string list"
  cl_failed :: "string list"
  cl_warnings :: "warning list"

definition stage_retrieval :: "MultiStageValidator \<Rightarrow> real \<Rightarrow> check_lists \<Rightarrow> check_lists" where
  "stage_retrieval v retrieval_score cl =
     (if retrieval_score \<ge> retrieval_threshold v
      then cl\<lparr>cl_passed := cl_passed cl @ [''retrieval_quality'']\<rparr>
      else cl\<lparr>cl_failed := cl_failed cl @ [''retrieval_quality''],
              cl_warnings := cl_warnings cl @ [LowRetrievalQuality retrieval_score]\<rparr>)"

definition stage_alignment :: "MultiStageValidator \<Rightarrow> real \<Rightarrow> check_lists \<Rightarrow> check_lists" where
  "stage_alignment v alignment_score cl =
     (if alignment_score \<ge> alignment_threshold v
      then cl\<lparr>cl_passed := cl_passed cl @ [''source_alignment'']\<rparr>
      else cl\<lparr>cl_failed := cl_failed cl @ [''source_alignment''],
              cl_warnings := cl_warnings cl
                @ [Warning ''Answer may not be well-supported by sources'']\<rparr>)"

definition stage_hallucination :: "hallucination_result \<Rightarrow> check_lists \<Rightarrow> check_lists" where
  "stage_hallucination h cl =
     (if \<not> likely_hallucination h
      then cl\<lparr>cl_passed := cl_passed cl @ [''hallucination_check'']\<rparr>
      else cl\<lparr>cl_failed := cl_failed cl @ [''hallucination_check''],
              cl_warnings := cl_warnings cl @ map Warning (indicators h)\<rparr>)"

definition stage_numerical :: "numerical_result \<Rightarrow> check_lists \<Rightarrow> check_lists" where
  "stage_numerical n cl =
     (if has_numbers n
      then (if validated n
            then cl\<lparr>cl_passed := cl_passed cl @ [''numerical_accuracy'']\<rparr>
            else cl\<lparr>cl_failed := cl_failed cl @ [''numerical_accuracy''],
                    cl_warnings := cl_warnings cl
                      @ [Warning ''Numbers in answer may not match source documents'']\<rparr>)
      else cl)"

definition validate ::
  "MultiStageValidator \<Rightarrow> string \<Rightarrow> string \<Rightarrow> retrieved list \<Rightarrow> ValidationResult" where
  "validate v query answer retrieved_chunks =
     (let cl0 = \<lparr>cl_passed = [], cl_failed = [], cl_warnings = []\<rparr>;
          retrieval_score = check_retrieval_quality retrieved_chunks;
          cl1 = stage_retrieval v retrieval_score cl0;
          alignment_score = check_source_alignment answer retrieved_chunks;
          cl2 = stage_alignment v alignment_score cl1;
          hallucination_check = detect_hallucination answer retrieved_chunks;
          cl3 = stage_hallucination hallucination_check cl2;
          numerical_check = check_numerical_accuracy answer retrieved_chunks;
          cl4 = stage_numerical numerical_check cl3;
          conf = calculate_confidence retrieval_score alignment_score
                   (length (cl_passed cl4)) (length (cl_failed cl4))
      in \<lparr>level = determine_validation_level v conf (cl_failed cl4),
          confidence_score = conf,
          passed_checks = cl_passed cl4,
          failed_checks = cl_failed cl4,
          warnings = cl_warnings cl4,
          details = \<lparr>d_retrieval_score = retrieval_score,
                     d_alignment_score = alignment_score,
                     d_hallucination_indicators = hallucination_check,
                     d_numerical_accuracy = numerical_check\<rparr>\<rparr>)"

definition matched_indicators :: "string \<Rightarrow> retrieved list \<Rightarrow> nat" where
  \<comment> \<open>how many of the three indicators the answer matches\<close>
  "matched_indicators answer retrieved_chunks =
     length (filter id [contradiction answer,
                        unsupported_specificity answer retrieved_chunks,
                        excessive_length answer retrieved_chunks])"

section \<open>The document processor\<close>

record DocumentProcessor =
  chunk_size :: int
  chunk_overlap :: int

definition default_processor :: DocumentProcessor where
  "default_processor = \<lparr>chunk_size = 800, chunk_overlap = 200\<rparr>"

definition clean_text :: "string \<Rightarrow> string" where
  "clean_text txt = py_strip (filter (\<lambda>c. c \<noteq> CHR 0x00) (py_join '' '' (py_split txt)))"

definition break_point :: "string \<Rightarrow> int" where
  "break_point chunk_text = max (rfind chunk_text ''. '') (rfind chunk_text [CHR 0x0A])"

definition window :: "DocumentProcessor \<Rightarrow> string \<Rightarrow> int \<Rightarrow> string \<times> int" where
  \<comment> \<open>the text and the end of the chunk that starts at \<open>start\<close>\<close>
  "window dp txt start =
     (let end = start + chunk_size dp;
          chunk_text = py_slice txt start end
      in if end < int (length txt) \<and> break_point chunk_text > chunk_size dp - 200
         then (let chunk_text' = py_slice chunk_text 0 (break_point chunk_text + 1)
               in (chunk_text', start + int (length chunk_text')))
         else (chunk_text, end))"

definition make_chunk :: "string \<Rightarrow> int \<Rightarrow> int \<Rightarrow> int \<Rightarrow> string \<times> int \<Rightarrow> DocumentChunk" where
  "make_chunk src pg cid start w =
     \<lparr>c_text = py_strip (fst w), source = src, page = pg, chunk_id = cid,
      char_start = start, char_end = snd w, chunk_length = int (length (fst w))\<rparr>"

text \<open>
  The loop of \<open>_create_chunks\<close>.  It need not terminate for every chunk size and
  overlap, so it is a partial function: \<open>None\<close> stands for a loop that runs forever.
\<close>

partial_function (option) create_chunks_loop ::
  "DocumentProcessor \<Rightarrow> string \<Rightarrow> string \<Rightarrow> int \<Rightarrow> int \<Rightarrow> int \<Rightarrow> DocumentChunk list
     \<Rightarrow> DocumentChunk list option" where
  "create_chunks_loop dp txt src pg start cid chunks =
     (if start < int (length txt)
      then (let w = window dp txt start;
                chunks' = chunks @ [make_chunk src pg cid start w];
                start' = snd w - chunk_overlap dp
            in if start' \<ge> int (length txt) \<or> snd w \<ge> int (length txt)
               then Some chunks'
               else create_chunks_loop dp txt src pg start' (cid + 1) chunks')
      else Some chunks)"

declare create_chunks_loop.simps [code]

definition create_chunks ::
  "DocumentProcessor \<Rightarrow> string \<Rightarrow> string \<Rightarrow> int \<Rightarrow> DocumentChunk list option" where
  "create_chunks dp txt src pg = create_chunks_loop dp txt src pg 0 0 []"

definition basename :: "string \<Rightarrow> string" where
  \<comment> \<open>\<open>os.path.basename\<close> on a POSIX path\<close>
  "basename path = rev (takeWhile (\<lambda>c. c \<noteq> CHR ''/'') (rev path))"

text \<open>
  A PDF is the list of its pages; \<open>extract_text\<close> gives a page's text, nothing, or
  raises.  \<open>process_pdf\<close> catches every exception and returns the chunks made so far.
\<close>

datatype extraction = Text string | NoText | Raises

fun process_pages ::
  "DocumentProcessor \<Rightarrow> string \<Rightarrow> (int \<times> extraction) list \<Rightarrow> DocumentChunk list
     \<Rightarrow> DocumentChunk list option" where
  "process_pages dp src [] chunks = Some chunks"
| "process_pages dp src ((page_num, Raises) # rest) chunks = Some chunks"
| "process_pages dp src ((page_num, NoText) # rest) chunks = process_pages dp src rest chunks"
| "process_pages dp src ((page_num, Text t) # rest) chunks =
     (if t = [] then process_pages dp src rest chunks
      else (case create_chunks dp (clean_text t) src page_num of
              None \<Rightarrow> None
            | Some page_chunks \<Rightarrow> process_pages dp src rest (chunks @ page_chunks)))"

definition enumerate1 :: "'a list \<Rightarrow> (int \<times> 'a) list" where
  \<comment> \<open>\<open>enumerate(xs, 1)\<close>\<close>
  "enumerate1 xs = zip (map int [1..<Suc (length xs)]) xs"

definition process_pdf ::
  "DocumentProcessor \<Rightarrow> string \<Rightarrow> extraction list \<Rightarrow> DocumentChunk list option" where
  "process_pdf dp pdf_path pages = process_pages dp (basename pdf_path) (enumerate1 pages) []"

section \<open>The hybrid retriever\<close>

definition normalize_scores :: "real list \<Rightarrow> real list" where
  "normalize_scores scores =
     (if length scores = 0 then scores
      else let min_score = Min (set scores);
               max_score = Max (set scores)
           in if max_score - min_score = 0 then map (\<lambda>_. 1) scores
              else map (\<lambda>s. (s - min_score) / (max_score - min_score)) scores)"

text \<open>
  The BM25 index, the embedding model and the cosine similarity are libraries.  They are
  parameters of the model: each gives the score of the document at a position of the
  corpus it was built from, so a score vector has one entry per indexed document.
\<close>

record scorers =
  bm25_score :: "string list list \<Rightarrow> string list \<Rightarrow> nat \<Rightarrow> real"
  dense_score :: "string list \<Rightarrow> string \<Rightarrow> nat \<Rightarrow> real"

text \<open>
  The state of the retriever.  \<open>bm25\<close> holds the tokenized corpus its index was built
  from and \<open>chunk_embeddings\<close> the texts that were embedded; both are \<open>None\<close> before the
  first indexing.
\<close>

record HybridRetriever =
  bm25_weight :: real
  dense_weight :: real
  chunks :: "DocumentChunk list"
  chunk_embeddings :: "string list option"
  bm25 :: "string list list option"

definition new_retriever :: "real \<Rightarrow> real \<Rightarrow> HybridRetriever" where
  "new_retriever bw dw =
     \<lparr>bm25_weight = bw, dense_weight = dw, chunks = [], chunk_embeddings = None, bm25 = None\<rparr>"

definition chunk_key :: "DocumentChunk \<Rightarrow> string \<times> int" where
  "chunk_key c = (source c, chunk_id c)"

definition index_documents ::
  "HybridRetriever \<Rightarrow> DocumentChunk list \<Rightarrow> bool \<Rightarrow> HybridRetriever" where
  "index_documents r new do_append =
     (if new = [] then r
      else let chunks' =
                 (if do_append \<and> chunks r \<noteq> []
                  then (let existing_ids = set (map chunk_key (chunks r));
                            new_chunks = filter (\<lambda>c. chunk_key c \<notin> existing_ids) new
                        in chunks r @ new_chunks)
                  else new);
               texts = map c_text chunks'
           in r\<lparr>chunks := chunks', bm25 := Some (map py_split texts),
                chunk_embeddings := Some texts\<rparr>)"

datatype py_error = ValueError | IndexError

definition np_broadcast2 ::
  "(real \<Rightarrow> real \<Rightarrow> real) \<Rightarrow> real list \<Rightarrow> real list \<Rightarrow> py_error + real list" where
  \<comment> \<open>an elementwise operation on two vectors; a vector of one entry is broadcast\<close>
  "np_broadcast2 f xs ys =
     (if length xs = length ys then Inr (map2 f xs ys)
      else if length xs = 1 then Inr (map (f (hd xs)) ys)
      else if length ys = 1 then Inr (map (\<lambda>x. f x (hd ys)) xs)
      else Inl ValueError)"

definition argsort :: "real list \<Rightarrow> nat list" where
  \<comment> \<open>the indices in ascending order of their scores; the order of equal scores is
      not fixed by the library, here it is the order of the indices\<close>
  "argsort xs = sort_key (\<lambda>i. xs ! i) [0..<length xs]"

definition make_result :: "bool \<Rightarrow> real list \<Rightarrow> real list \<Rightarrow> real list \<Rightarrow> DocumentChunk \<Rightarrow> nat
    \<Rightarrow> retrieved" where
  "make_result return_scores combined bm25n densen chunk idx =
     \<lparr>r_chunk = Some chunk, r_text = Some (c_text chunk), r_source = source chunk,
      r_page = page chunk, r_chunk_id = chunk_id chunk,
      r_combined_score = (if return_scores then Some (combined ! idx) else None),
      r_bm25_score = (if return_scores then Some (bm25n ! idx) else None),
      r_dense_score = (if return_scores then Some (densen ! idx) else None)\<rparr>"

definition top_indices :: "real list \<Rightarrow> int \<Rightarrow> nat list" where
  \<comment> \<open>\<^verbatim>\<open>np.argsort(combined_scores)[-top_k:][::-1]\<close>\<close>
  "top_indices combined top_k =
     rev (py_slice (argsort combined) (- top_k) (int (length combined)))"

definition retrieve ::
  "scorers \<Rightarrow> HybridRetriever \<Rightarrow> string \<Rightarrow> int \<Rightarrow> bool \<Rightarrow> py_error + retrieved list" where
  "retrieve sc r query top_k return_scores =
     (if chunks r = [] \<or> bm25 r = None then Inr []
      else case chunk_embeddings r of
        None \<Rightarrow> Inl ValueError
      | Some emb \<Rightarrow>
         (let corpus = the (bm25 r);
              tokenized_query = py_split query;
              bm25_scores = map (bm25_score sc corpus tokenized_query) [0..<length corpus];
              dense_scores = map (dense_score sc emb query) [0..<length emb];
              bm25_scores_norm = normalize_scores bm25_scores;
              dense_scores_norm = normalize_scores dense_scores
          in case np_broadcast2 (\<lambda>b d. bm25_weight r * b + dense_weight r * d)
                    bm25_scores_norm dense_scores_norm of
               Inl e \<Rightarrow> Inl e
             | Inr combined_scores \<Rightarrow>
                (let idxs = top_indices combined_scores top_k
                 in if list_ex (\<lambda>idx. idx \<ge> length (chunks r)) idxs then Inl IndexError
                    else Inr (map (\<lambda>idx. make_result return_scores combined_scores
                                 bm25_scores_norm dense_scores_norm (chunks r ! idx) idx) idxs))))"

section \<open>The pipeline\<close>

record LLMResponse =
  llm_text :: string
  llm_model :: string
  llm_tokens_used :: "int option"

datatype meta_value = MStr string | MInt int | MReal real | MNone

record RAGResponse =
  rr_query :: string
  rr_answer :: string
  rr_sources :: "retrieved list"
  rr_validation :: "ValidationResult option"
  rr_metadata :: "(string \<times> meta_value) list"

text \<open>
  The language model is a parameter as well: \<open>generate prompt context max_tokens
  temperature\<close>.
\<close>

type_synonym llm_provider = "string \<Rightarrow> string list \<Rightarrow> int \<Rightarrow> real \<Rightarrow> LLMResponse"

record RAGPipeline =
  document_processor :: DocumentProcessor
  retriever :: HybridRetriever
  validator :: MultiStageValidator
  top_k :: int
  documents_loaded :: bool

definition new_pipeline :: "int \<Rightarrow> int \<Rightarrow> int \<Rightarrow> RAGPipeline" where
  "new_pipeline csize coverlap k =
     \<lparr>document_processor = \<lparr>chunk_size = csize, chunk_overlap = coverlap\<rparr>,
      retriever = new_retriever 0.5 0.5, validator = default_validator,
      top_k = k, documents_loaded = False\<rparr>"

definition load_chunks :: "RAGPipeline \<Rightarrow> DocumentChunk list \<Rightarrow> bool \<Rightarrow> RAGPipeline" where
  \<comment> \<open>\<open>load_documents\<close>, after the chunks of the path have been made\<close>
  "load_chunks p cs do_append =
     (if cs \<noteq> []
      then p\<lparr>retriever := index_documents (retriever p) cs do_append, documents_loaded := True\<rparr>
      else p)"

definition no_documents_response :: "string \<Rightarrow> RAGResponse" where
  "no_documents_response question =
     \<lparr>rr_query = question,
      rr_answer = ''No documents loaded. Please load documents first.'',
      rr_sources = [], rr_validation = None,
      rr_metadata = [(''error'', MStr ''no_documents_loaded'')]\<rparr>"

definition nothing_found_response :: "string \<Rightarrow> RAGResponse" where
  "nothing_found_response question =
     \<lparr>rr_query = question,
      rr_answer = ''I could not find relevant information in the documents.'',
      rr_sources = [], rr_validation = None,
      rr_metadata = [(''retrieval_count'', MInt 0)]\<rparr>"

definition query ::
  "scorers \<Rightarrow> llm_provider \<Rightarrow> RAGPipeline \<Rightarrow> string \<Rightarrow> bool \<Rightarrow> bool \<Rightarrow> py_error + RAGResponse"
  where
  "query sc generate p question return_sources do_validate =
     (if \<not> documents_loaded p then Inr (no_documents_response question)
      else case retrieve sc (retriever p) question (top_k p) True of
        Inl e \<Rightarrow> Inl e
      | Inr retrieved_chunks \<Rightarrow>
         (if retrieved_chunks = [] then Inr (nothing_found_response question)
          else let context_texts = map get_text retrieved_chunks;
                   llm_response = generate question context_texts 500 0.1;
                   validation_result =
                     (if do_validate
                      then Some (validate (validator p) question (llm_text llm_response)
                                   retrieved_chunks)
                      else None);
                   sources = (if return_sources then retrieved_chunks else [])
               in Inr \<lparr>rr_query = question, rr_answer = llm_text llm_response,
                       rr_sources = sources, rr_validation = validation_result,
                       rr_metadata =
                         [(''retrieval_count'', MInt (int (length retrieved_chunks))),
                          (''model'', MStr (llm_model llm_response)),
                          (''tokens_used'',
                             (case llm_tokens_used llm_response of
                                None \<Rightarrow> MNone | Some n \<Rightarrow> MInt n)),
                          (''top_retrieval_score'',
                             MReal (get_combined_score (hd retrieved_chunks)))]\<rparr>))"

section \<open>Concrete inputs\<close>

definition fee_chunk :: retrieved where
  "fee_chunk = \<lparr>r_chunk = None, r_text = Some ''The management fee is 2% annually.'', r_source = ''fund.pdf'',
     r_page = 1, r_chunk_id = 0, r_combined_score = Some 1, r_bm25_score = Some 1,
     r_dense_score = Some 1\<rparr>"

definition chunk_a :: DocumentChunk where
  "chunk_a = \<lparr>c_text = ''The management fee is 2% annually.'', source = ''fund.pdf'', page = 1,
     chunk_id = 0, char_start = 0, char_end = 800, chunk_length = 34\<rparr>"

definition chunk_b :: DocumentChunk where
  "chunk_b = \<lparr>c_text = ''Redemptions are paid monthly.'', source = ''fund.pdf'', page = 1,
     chunk_id = 1, char_start = 600, char_end = 1400, chunk_length = 29\<rparr>"

definition chunk_c :: DocumentChunk where
  "chunk_c = \<lparr>c_text = ''The auditor is independent.'', source = ''audit.pdf'', page = 1,
     chunk_id = 0, char_start = 0, char_end = 800, chunk_length = 27\<rparr>"

definition demo_scorers :: scorers where
  \<comment> \<open>scorers that rate a document by its position and by its number of tokens\<close>
  "demo_scorers = \<lparr>bm25_score = (\<lambda>corpus q i. real (length (corpus ! i))),
                    dense_score = (\<lambda>emb q i. real i)\<rparr>"

definition echo_llm :: llm_provider where
  "echo_llm prompt context max_tokens temperature =
     \<lparr>llm_text = ''The management fee is 2%.'', llm_model = ''stub'', llm_tokens_used = None\<rparr>"


section \<open>Properties of the validator\<close>

lemma stage_failed_simps:
  "cl_failed (stage_retrieval v x cl) =
     cl_failed cl @ (if x \<ge> retrieval_threshold v then [] else [''retrieval_quality''])"
  "cl_failed (stage_alignment v y cl) =
     cl_failed cl @ (if y \<ge> alignment_threshold v then [] else [''source_alignment''])"
  "cl_failed (stage_hallucination h cl) =
     cl_failed cl @ (if likely_hallucination h then [''hallucination_check''] else [])"
  "cl_failed (stage_numerical n cl) =
     cl_failed cl @ (if has_numbers n \<and> \<not> validated n then [''numerical_accuracy''] else [])"
  by (simp_all add: stage_retrieval_def stage_alignment_def stage_hallucination_def
      stage_numerical_def)

lemma stage_passed_simps:
  "cl_passed (stage_retrieval v x cl) =
     cl_passed cl @ (if x \<ge> retrieval_threshold v then [''retrieval_quality''] else [])"
  "cl_passed (stage_alignment v y cl) =
     cl_passed cl @ (if y \<ge> alignment_threshold v then [''source_alignment''] else [])"
  "cl_passed (stage_hallucination h cl) =
     cl_passed cl @ (if likely_hallucination h then [] else [''hallucination_check''])"
  "cl_passed (stage_numerical n cl) =
     cl_passed cl @ (if has_numbers n \<and> validated n then [''numerical_accuracy''] else [])"
  by (simp_all add: stage_retrieval_def stage_alignment_def stage_hallucination_def
      stage_numerical_def)

lemma determine_level_FAILED_iff:
  "determine_validation_level v conf failed = FAILED \<longleftrightarrow>
     ''retrieval_quality'' \<in> set failed \<or> ''numerical_accuracy'' \<in> set failed"
  by (auto simp: determine_validation_level_def Let_def)

lemma level_validate:
  "level (validate v q a cs) =
     determine_validation_level v (confidence_score (validate v q a cs))
       (failed_checks (validate v q a cs))"
  by (simp add: validate_def Let_def)

text \<open>
  C1.  The level of every result of \<open>validate\<close> is \<open>FAILED\<close> exactly when
  \<open>retrieval_quality\<close> or \<open>numerical_accuracy\<close> is among its failed checks: a critical
  failure forces \<open>FAILED\<close> whatever the confidence score is, and no other combination of
  failed checks gives \<open>FAILED\<close>.  The same holds of the level decision for every
  confidence score and every list of failed checks.
\<close>

theorem validate_critical_failure_veto:
  "(level (validate v q answer retrieved_chunks) = FAILED \<longleftrightarrow>
      ''retrieval_quality'' \<in> set (failed_checks (validate v q answer retrieved_chunks)) \<or>
      ''numerical_accuracy'' \<in> set (failed_checks (validate v q answer retrieved_chunks)))
   \<and> (\<forall>conf failed. determine_validation_level v conf failed = FAILED \<longleftrightarrow>
          ''retrieval_quality'' \<in> set failed \<or> ''numerical_accuracy'' \<in> set failed)"
  by (simp only: level_validate determine_level_FAILED_iff simp_thms)

theorem validate_critical_failure_veto_witness:
  "''numerical_accuracy'' \<in> set (failed_checks
       (validate default_validator ''What is the fee?'' ''The management fee is 5%.'' [fee_chunk]))
   \<and> confidence_score
       (validate default_validator ''What is the fee?'' ''The management fee is 5%.'' [fee_chunk])
        = 37 / 50
   \<and> level (validate default_validator ''What is the fee?'' ''The management fee is 5%.'' [fee_chunk])
        = FAILED
   \<and> failed_checks
       (validate default_validator ''What is the fee?'' ''The management fee is 2%.'' [fee_chunk])
        = [''hallucination_check'']
   \<and> level (validate default_validator ''What is the fee?'' ''The management fee is 2%.'' [fee_chunk])
        \<noteq> FAILED"
proof -
  have f5: "failed_checks
       (validate default_validator ''What is the fee?'' ''The management fee is 5%.'' [fee_chunk])
        = [''hallucination_check'', ''numerical_accuracy'']"
    by code_simp
  have c5: "confidence_score
       (validate default_validator ''What is the fee?'' ''The management fee is 5%.'' [fee_chunk])
        = 37 / 50"
    by code_simp
  have f2: "failed_checks
       (validate default_validator ''What is the fee?'' ''The management fee is 2%.'' [fee_chunk])
        = [''hallucination_check'']"
    by code_simp
  show ?thesis
    using validate_critical_failure_veto
            [of default_validator "''What is the fee?''" "''The management fee is 5%.''" "[fee_chunk]"]
          validate_critical_failure_veto
            [of default_validator "''What is the fee?''" "''The management fee is 2%.''" "[fee_chunk]"]
    by (simp add: f5 c5 f2)
qed

text \<open>
  C2 (as amended).  The hallucination check fails exactly when the contradiction
  indicator is matched or at least two of the three indicators are matched; the list of
  indicators it reports has one entry per matched indicator.
\<close>

theorem hallucination_likely_iff:
  "(likely_hallucination (detect_hallucination answer retrieved_chunks) \<longleftrightarrow>
      contradiction answer \<or> 2 \<le> matched_indicators answer retrieved_chunks)
   \<and> length (indicators (detect_hallucination answer retrieved_chunks))
       = matched_indicators answer retrieved_chunks"
  by (simp add: detect_hallucination_def matched_indicators_def Let_def)

text \<open>
  C2 as stated fails: an answer of 21 words that says \<open>cannot find\<close>, checked against
  no retrieved chunk, matches the contradiction indicator only, and the check fails.
\<close>

theorem hallucination_single_indicator_counterexample:
  "likely_hallucination
     (detect_hallucination ''cannot find a b c d e f g h i j k l m n o p q r s'' [])
   \<and> matched_indicators ''cannot find a b c d e f g h i j k l m n o p q r s'' [] = 1
   \<and> indicators (detect_hallucination ''cannot find a b c d e f g h i j k l m n o p q r s'' [])
       = [''Contradictory: Claims no info but provides detail'']"
  by code_simp

theorem hallucination_likely_iff_witness:
  "contradiction ''cannot find a b c d e f g h i j k l m n o p q r s''
   \<and> likely_hallucination
     (detect_hallucination ''cannot find a b c d e f g h i j k l m n o p q r s'' [])
   \<and> matched_indicators ''The management fee is 2%.'' [fee_chunk] = 2
   \<and> likely_hallucination (detect_hallucination ''The management fee is 2%.'' [fee_chunk])
   \<and> \<not> contradiction ''The fee is given in Source 1.''
   \<and> matched_indicators ''The fee is given in Source 1.'' [fee_chunk] = 1
   \<and> \<not> likely_hallucination (detect_hallucination ''The fee is given in Source 1.'' [fee_chunk])"
proof -
  have a: "contradiction ''cannot find a b c d e f g h i j k l m n o p q r s''"
    by code_simp
  have b: "matched_indicators ''The management fee is 2%.'' [fee_chunk] = 2"
    by code_simp
  have c: "\<not> contradiction ''The fee is given in Source 1.''"
    by code_simp
  have d: "matched_indicators ''The fee is given in Source 1.'' [fee_chunk] = 1"
    by code_simp
  show ?thesis
    using hallucination_likely_iff [of "''cannot find a b c d e f g h i j k l m n o p q r s''" "[]"]
          hallucination_likely_iff [of "''The management fee is 2%.''" "[fee_chunk]"]
          hallucination_likely_iff [of "''The fee is given in Source 1.''" "[fee_chunk]"]
    by (simp add: a b c d)
qed


lemma passed_failed_validate:
  "passed_checks (validate v q a cs) =
     (if check_retrieval_quality cs \<ge> retrieval_threshold v then [''retrieval_quality''] else [])
     @ (if check_source_alignment a cs \<ge> alignment_threshold v then [''source_alignment''] else [])
     @ (if likely_hallucination (detect_hallucination a cs) then [] else [''hallucination_check''])
     @ (if has_numbers (check_numerical_accuracy a cs) \<and> validated (check_numerical_accuracy a cs)
        then [''numerical_accuracy''] else [])"
  "failed_checks (validate v q a cs) =
     (if check_retrieval_quality cs \<ge> retrieval_threshold v then [] else [''retrieval_quality''])
     @ (if check_source_alignment a cs \<ge> alignment_threshold v then [] else [''source_alignment''])
     @ (if likely_hallucination (detect_hallucination a cs) then [''hallucination_check''] else [])
     @ (if has_numbers (check_numerical_accuracy a cs) \<and> \<not> validated (check_numerical_accuracy a cs)
        then [''numerical_accuracy''] else [])"
  by (simp_all add: validate_def Let_def stage_passed_simps stage_failed_simps)

lemma confidence_validate:
  "confidence_score (validate v q a cs) =
     calculate_confidence (check_retrieval_quality cs) (check_source_alignment a cs)
       (length (passed_checks (validate v q a cs))) (length (failed_checks (validate v q a cs)))"
  by (simp add: validate_def Let_def)

lemma numerical_no_numbers:
  "extract_numbers a = [] \<Longrightarrow> \<not> has_numbers (check_numerical_accuracy a cs)"
  "extract_numbers a = [] \<Longrightarrow> validated (check_numerical_accuracy a cs)"
  by (simp_all add: check_numerical_accuracy_def)

text \<open>
  C4.  The numerical-accuracy check passes (\<open>validated\<close>) exactly when every number
  string extracted from the answer is among the number strings extracted, by the same
  three patterns, from the source texts joined by a space; \<open>has_numbers\<close> says whether
  anything was extracted, and an answer from which nothing is extracted gives
  \<open>has_numbers = False\<close> and \<open>validated = True\<close>.
\<close>

theorem numerical_accuracy_passes_iff:
  "(validated (check_numerical_accuracy answer retrieved_chunks) \<longleftrightarrow>
      (\<forall>num \<in> set (extract_numbers answer).
         num \<in> set (extract_numbers (py_join '' '' (map get_text retrieved_chunks)))))
   \<and> (has_numbers (check_numerical_accuracy answer retrieved_chunks) \<longleftrightarrow>
        extract_numbers answer \<noteq> [])
   \<and> (extract_numbers answer = [] \<longrightarrow>
        \<not> has_numbers (check_numerical_accuracy answer retrieved_chunks) \<and>
        validated (check_numerical_accuracy answer retrieved_chunks))"
  by (simp add: check_numerical_accuracy_def Let_def list_all_iff)

theorem numerical_accuracy_passes_iff_witness:
  "extract_numbers ''The fee is low.'' = []
   \<and> \<not> has_numbers (check_numerical_accuracy ''The fee is low.'' [fee_chunk])
   \<and> validated (check_numerical_accuracy ''The fee is low.'' [fee_chunk])
   \<and> extract_numbers ''The management fee is 2%.'' = [''2%'', ''2'']
   \<and> extract_numbers (py_join '' '' (map get_text [fee_chunk])) = [''2%'', ''2'']
   \<and> validated (check_numerical_accuracy ''The management fee is 2%.'' [fee_chunk])
   \<and> extract_numbers ''The management fee is 5%.'' = [''5%'', ''5'']
   \<and> \<not> validated (check_numerical_accuracy ''The management fee is 5%.'' [fee_chunk])"
proof -
  have a: "extract_numbers ''The fee is low.'' = []"
    by code_simp
  have b: "extract_numbers ''The management fee is 2%.'' = [''2%'', ''2'']"
    by code_simp
  have c: "extract_numbers (py_join '' '' (map get_text [fee_chunk])) = [''2%'', ''2'']"
    by code_simp
  have d: "extract_numbers ''The management fee is 5%.'' = [''5%'', ''5'']"
    by code_simp
  have c': "extract_numbers (get_text fee_chunk) = [''2%'', ''2'']"
    using c by simp
  show ?thesis
    using numerical_accuracy_passes_iff [of "''The fee is low.''" "[fee_chunk]"]
          numerical_accuracy_passes_iff [of "''The management fee is 2%.''" "[fee_chunk]"]
          numerical_accuracy_passes_iff [of "''The management fee is 5%.''" "[fee_chunk]"]
    by (simp add: a b c' d)
qed

text \<open>
  C10.  When no number is extracted from the answer, \<open>numerical_accuracy\<close> is in
  neither list of checks of the result: the two lists hold the other three checks, their
  lengths add up to 3, and the ratio term of the confidence score is the number of passed
  checks over 3.
\<close>

theorem no_numbers_check_ratio:
  assumes "extract_numbers answer = []"
  shows "''numerical_accuracy'' \<notin> set (passed_checks (validate v q answer retrieved_chunks))
    \<and> ''numerical_accuracy'' \<notin> set (failed_checks (validate v q answer retrieved_chunks))
    \<and> set (passed_checks (validate v q answer retrieved_chunks))
        \<union> set (failed_checks (validate v q answer retrieved_chunks))
        = {''retrieval_quality'', ''source_alignment'', ''hallucination_check''}
    \<and> length (passed_checks (validate v q answer retrieved_chunks))
        + length (failed_checks (validate v q answer retrieved_chunks)) = 3
    \<and> confidence_score (validate v q answer retrieved_chunks)
        = min 1 (max 0 (0.3 * check_retrieval_quality retrieved_chunks
                        + 0.3 * check_source_alignment answer retrieved_chunks
                        + 0.4 * (real (length (passed_checks (validate v q answer retrieved_chunks))) / 3)))"
proof -
  let ?R = "validate v q answer retrieved_chunks"
  have n: "\<not> has_numbers (check_numerical_accuracy answer retrieved_chunks)"
    using assms by (rule numerical_no_numbers)
  have p: "''numerical_accuracy'' \<notin> set (passed_checks ?R)"
    by (simp add: passed_failed_validate n)
  have f: "''numerical_accuracy'' \<notin> set (failed_checks ?R)"
    by (simp add: passed_failed_validate n)
  have s: "set (passed_checks ?R) \<union> set (failed_checks ?R)
        = {''retrieval_quality'', ''source_alignment'', ''hallucination_check''}"
    by (auto simp add: passed_failed_validate n split: if_splits)
  have l: "length (passed_checks ?R) + length (failed_checks ?R) = 3"
    by (simp add: passed_failed_validate n)
  have c: "confidence_score ?R
        = min 1 (max 0 (0.3 * check_retrieval_quality retrieved_chunks
                        + 0.3 * check_source_alignment answer retrieved_chunks
                        + 0.4 * (real (length (passed_checks ?R)) / 3)))"
    by (subst confidence_validate) (simp add: calculate_confidence_def Let_def l)
  from p f s l c show ?thesis by blast
qed

theorem no_numbers_check_ratio_witness:
  "extract_numbers ''The fee is given in Source 1.'' \<noteq> []
   \<and> extract_numbers ''The fee is low.'' = []
   \<and> passed_checks (validate default_validator ''What is the fee?'' ''The fee is low.'' [fee_chunk])
       = [''retrieval_quality'', ''source_alignment'', ''hallucination_check'']
   \<and> failed_checks (validate default_validator ''What is the fee?'' ''The fee is low.'' [fee_chunk])
       = []
   \<and> confidence_score (validate default_validator ''What is the fee?'' ''The fee is low.'' [fee_chunk])
       = 37 / 40"
proof -
  have a: "extract_numbers ''The fee is low.'' = []"
    by code_simp
  have a': "extract_numbers ''The fee is given in Source 1.'' \<noteq> []"
    by code_simp
  have b: "passed_checks (validate default_validator ''What is the fee?'' ''The fee is low.'' [fee_chunk])
       = [''retrieval_quality'', ''source_alignment'', ''hallucination_check'']"
    by code_simp
  have c: "failed_checks (validate default_validator ''What is the fee?'' ''The fee is low.'' [fee_chunk])
       = []"
    by code_simp
  have r: "check_retrieval_quality [fee_chunk] = 1"
    by code_simp
  have s: "check_source_alignment ''The fee is low.'' [fee_chunk] = 3 / 4"
    by code_simp
  show ?thesis
    using no_numbers_check_ratio [OF a, of default_validator "''What is the fee?''" "[fee_chunk]"]
    by (simp add: a a' b c r s)
qed


section \<open>Properties of the retriever\<close>

lemma normalize_scores_nth:
  assumes "i < length scores"
  shows "normalize_scores scores ! i =
     (if Max (set scores) = Min (set scores) then 1
      else (scores ! i - Min (set scores)) / (Max (set scores) - Min (set scores)))"
  using assms by (auto simp: normalize_scores_def Let_def)

lemma length_normalize_scores [simp]: "length (normalize_scores scores) = length scores"
  by (simp add: normalize_scores_def Let_def)

lemma normalize_scores_range:
  assumes "x \<in> set (normalize_scores scores)"
  shows "0 \<le> x \<and> x \<le> 1"
proof -
  from assms obtain i where i: "i < length scores" and x: "x = normalize_scores scores ! i"
    by (auto simp: in_set_conv_nth)
  have fin: "finite (set scores)" by simp
  have mem: "scores ! i \<in> set scores" using i by simp
  have lo: "Min (set scores) \<le> scores ! i" using fin mem by (rule Min_le)
  have hi: "scores ! i \<le> Max (set scores)" using fin mem by (rule Max_ge)
  show ?thesis
  proof (cases "Max (set scores) = Min (set scores)")
    case True
    then show ?thesis using i x by (simp add: normalize_scores_nth)
  next
    case False
    define m M s where "m = Min (set scores)" and "M = Max (set scores)" and "s = scores ! i"
    have pos: "0 < M - m" and l: "0 \<le> s - m" and h: "s - m \<le> M - m"
      using False lo hi by (simp_all add: m_def M_def s_def)
    have x': "x = (s - m) / (M - m)"
      using i x False by (simp add: normalize_scores_nth m_def M_def s_def)
    have "0 \<le> (s - m) / (M - m)"
      using l pos by (intro divide_nonneg_pos)
    moreover have "(s - m) / (M - m) \<le> 1"
      using h pos by (simp only: pos_divide_le_eq mult_1)
    ultimately show ?thesis by (simp only: x')
  qed
qed

text \<open>
  C5.  For a score vector that is not empty, normalization keeps the length and gives
  values between 0 and 1.  When the scores are not all equal, every maximal score is
  mapped to 1 and every minimal score to 0; when they are all equal the result is the
  constant vector of ones.  Some maximal score is always mapped to 1.
\<close>

theorem normalize_scores_bounds:
  assumes "scores \<noteq> []"
  shows "length (normalize_scores scores) = length scores
    \<and> (\<forall>x \<in> set (normalize_scores scores). 0 \<le> x \<and> x \<le> 1)
    \<and> (Max (set scores) \<noteq> Min (set scores) \<longrightarrow>
         (\<forall>i < length scores.
            (scores ! i = Max (set scores) \<longrightarrow> normalize_scores scores ! i = 1) \<and>
            (scores ! i = Min (set scores) \<longrightarrow> normalize_scores scores ! i = 0)))
    \<and> (Max (set scores) = Min (set scores) \<longrightarrow>
         normalize_scores scores = replicate (length scores) 1)
    \<and> (\<exists>i < length scores. scores ! i = Max (set scores) \<and> normalize_scores scores ! i = 1)"
proof -
  have a: "\<forall>x \<in> set (normalize_scores scores). 0 \<le> x \<and> x \<le> 1"
    using normalize_scores_range by blast
  have b: "Max (set scores) \<noteq> Min (set scores) \<longrightarrow>
         (\<forall>i < length scores.
            (scores ! i = Max (set scores) \<longrightarrow> normalize_scores scores ! i = 1) \<and>
            (scores ! i = Min (set scores) \<longrightarrow> normalize_scores scores ! i = 0))"
    by (simp add: normalize_scores_nth)
  have c: "Max (set scores) = Min (set scores) \<longrightarrow>
         normalize_scores scores = replicate (length scores) 1"
    using assms by (simp add: normalize_scores_def Let_def map_replicate_const)
  have "Max (set scores) \<in> set scores"
    using assms by (intro Max_in) simp_all
  then obtain i where i: "i < length scores" "scores ! i = Max (set scores)"
    by (auto simp: in_set_conv_nth)
  then have "normalize_scores scores ! i = 1"
    by (simp add: normalize_scores_nth)
  with i have d: "\<exists>i < length scores. scores ! i = Max (set scores) \<and> normalize_scores scores ! i = 1"
    by blast
  from a b c d show ?thesis by simp
qed

theorem normalize_scores_bounds_witness:
  "[1, 3, 2] \<noteq> ([] :: real list)
   \<and> normalize_scores [1, 3, 2] = [0, 1, 1 / 2]
   \<and> normalize_scores [2, 2] = [1, 1]
   \<and> length (normalize_scores [7]) = 1"
  using normalize_scores_bounds [of "[1, 3, 2]"] normalize_scores_bounds [of "[7]"]
  by (simp add: normalize_scores_def)

end
